theory Spec2Isabelle
  imports Main "HOL-Library.Word"
begin

unbundle bit_operations_syntax

section \<open>The tool-invocation relay (\<open>main.py\<close>, route \<open>POST /trigger-tool\<close>)\<close>

text \<open>
  The backend of the repository is one FastAPI route:
  \<^verbatim>\<open>
  load_dotenv()
  app = FastAPI()
  app.add_middleware(CORSMiddleware, allow_origins=["*"], allow_credentials=True,
                     allow_methods=["*"], allow_headers=["*"])

  @app.post("/trigger-tool")
  async def trigger_tool(request: Request):
      data = await request.json()
      user_id = data.get("user_id")
      tool_id = data.get("tool_id")
      input_payload = data.get("input")

      headers = {"Authorization": f"Bearer {os.getenv('OPENAI_API_KEY')}"}
      webhook_url = os.getenv("n8n_WEBHOOK_URL")

      async with httpx.AsyncClient() as client:
          res = await client.post(webhook_url, json={"user": user_id, "tool": tool_id,
                                  "input": input_payload}, headers=headers)
          return res.json()
  \<close>
  The embedding below follows it line by line. What the handler calls but the
  repository does not contain is a parameter of the model: the JSON decoder
  (\<open>loads\<close>), the HTTP client together with the network and the downstream
  service (\<open>client_post\<close>), the framework's rendering of a returned value
  (\<open>render\<close>), and the process environment (\<open>environ\<close>).
\<close>

subsection \<open>Python values read from and written to JSON\<close>

text \<open>
  The values \<open>json.loads\<close> produces: \<open>None\<close>, \<open>bool\<close>, \<open>int\<close> (unbounded),
  \<open>float\<close> (an IEEE-754 double, kept as its 64 bits: the handler only moves it),
  \<open>str\<close>, \<open>list\<close> and \<open>dict\<close>. A \<open>dict\<close> is the list of its items in
  insertion order, looked up with \<open>map_of\<close>.
\<close>

datatype json =
    JNull
  | JBool bool
  | JInt int
  | JFloat "64 word"
  | JStr string
  | JArr "json list"
  | JObj "(string \<times> json) list"

text \<open>\<open>d.get(k)\<close>: the value stored under \<open>k\<close>, \<open>None\<close> when there is none.\<close>

definition dict_get :: "(string \<times> json) list \<Rightarrow> string \<Rightarrow> json" where
  "dict_get d k = (case map_of d k of None \<Rightarrow> JNull | Some v \<Rightarrow> v)"

subsection \<open>Process environment\<close>

type_synonym environ = "string \<rightharpoonup> string"

text \<open>\<open>os.getenv(k)\<close>: the variable's value, \<open>None\<close> when it is not set.\<close>

definition getenv :: "environ \<Rightarrow> string \<Rightarrow> string option" where
  "getenv env k = env k"

text \<open>An f-string field \<open>{x}\<close> for \<open>x\<close> a \<open>str\<close> or \<open>None\<close>: \<open>str(None)\<close> is \<open>'None'\<close>.\<close>

definition format_field :: "string option \<Rightarrow> string" where
  "format_field x = (case x of None \<Rightarrow> ''None'' | Some s \<Rightarrow> s)"

subsection \<open>Requests, outbound calls, downstream responses, exceptions\<close>

text \<open>The handler reads nothing of the inbound request but its body (bytes).\<close>

record request =
  body :: string

text \<open>The arguments of the one \<open>client.post(webhook_url, json=..., headers=...)\<close>.\<close>

record outbound_call =
  post_url :: "string option"
  post_json :: json
  post_headers :: "(string \<times> string) list"

text \<open>What \<open>client.post\<close> returns: an \<open>httpx.Response\<close>.\<close>

record httpx_response =
  status_code :: nat
  resp_headers :: "(string \<times> string) list"
  content :: string

text \<open>
  The exceptions that can leave the handler. \<open>JSONDecodeError\<close> stands for whatever
  \<open>json.loads\<close> raises on bytes that are not a JSON text; \<open>AttributeError\<close> is raised
  by \<open>data.get\<close> when \<open>data\<close> is not a \<open>dict\<close> (no other JSON value has a \<open>get\<close>);
  the remaining ones are raised by \<open>client.post\<close>. The handler has no \<open>try\<close>: every
  exception propagates to the framework.
\<close>

datatype exn =
    JSONDecodeError
  | AttributeError
  | TypeError
  | ConnectError
  | TimeoutException

subsection \<open>The handler\<close>

text \<open>
  Lines 171 to 177 and the argument list of line 180, up to the suspension at
  \<open>await client.post\<close>: decode the body, read the three fields, read the two
  environment variables, build the call.
\<close>

definition build_call :: "environ \<Rightarrow> (string \<times> json) list \<Rightarrow> outbound_call" where
  "build_call env data =
     (let user_id = dict_get data ''user_id'';
          tool_id = dict_get data ''tool_id'';
          input_payload = dict_get data ''input'';
          headers = [(''Authorization'', ''Bearer '' @ format_field (getenv env ''OPENAI_API_KEY''))];
          webhook_url = getenv env ''n8n_WEBHOOK_URL''
      in \<lparr>post_url = webhook_url,
          post_json = JObj [(''user'', user_id), (''tool'', tool_id), (''input'', input_payload)],
          post_headers = headers\<rparr>)"

definition before_post :: "(string \<Rightarrow> json option) \<Rightarrow> environ \<Rightarrow> request \<Rightarrow> exn + outbound_call" where
  "before_post loads env req =
     (case loads (body req) of
        None \<Rightarrow> Inl JSONDecodeError
      | Some (JObj data) \<Rightarrow> Inr (build_call env data)
      | Some _ \<Rightarrow> Inl AttributeError)"

text \<open>
  Line 180 after the suspension and line 181: an exception of \<open>client.post\<close>
  propagates; otherwise \<open>res.json()\<close> decodes the response's content, whatever its
  status code and headers, and the handler returns the decoded value.
\<close>

definition after_post :: "(string \<Rightarrow> json option) \<Rightarrow> exn + httpx_response \<Rightarrow> exn + json" where
  "after_post loads answer =
     (case answer of
        Inl e \<Rightarrow> Inl e
      | Inr res \<Rightarrow> (case loads (content res) of None \<Rightarrow> Inl JSONDecodeError | Some v \<Rightarrow> Inr v))"

text \<open>
  One run of the handler. The result is what the handler returns or raises, the
  outbound calls it made in order, and the process environment it leaves behind
  (the only process-wide state it touches).
\<close>

definition trigger_tool ::
  "(string \<Rightarrow> json option) \<Rightarrow> (outbound_call \<Rightarrow> exn + httpx_response) \<Rightarrow> environ \<Rightarrow> request
     \<Rightarrow> (exn + json) \<times> outbound_call list \<times> environ" where
  "trigger_tool loads client_post env req =
     (case before_post loads env req of
        Inl e \<Rightarrow> (Inl e, [], env)
      | Inr call \<Rightarrow> (after_post loads (client_post call), [call], env))"

subsection \<open>Accessors of a run\<close>

definition outcome :: "(exn + json) \<times> outbound_call list \<times> environ \<Rightarrow> exn + json" where
  "outcome run = fst run"

definition calls :: "(exn + json) \<times> outbound_call list \<times> environ \<Rightarrow> outbound_call list" where
  "calls run = fst (snd run)"

definition environ_after :: "(exn + json) \<times> outbound_call list \<times> environ \<Rightarrow> environ" where
  "environ_after run = snd (snd run)"

subsection \<open>What the framework answers the caller\<close>

datatype payload = JSONContent json | PlainText string

record reply =
  status :: nat
  payload :: payload

text \<open>
  FastAPI around the handler. The route is declared by \<open>@app.post("/trigger-tool")\<close>
  with no \<open>status_code\<close> and no response class: a value the handler returns is passed
  through the framework's encoder (\<open>jsonable_encoder\<close>) and sent as a \<open>JSONResponse\<close>
  (\<open>json.dumps\<close> with \<open>allow_nan=False\<close>, encoded as UTF-8) with status 200. Both
  steps are library code: they can raise (on a NaN, an infinity, a string with a lone
  surrogate) and they can change the value (the encoder drops the keys of a \<open>dict\<close>
  that start with \<open>_sa\<close>). They are the parameter \<open>render\<close>: \<open>None\<close> when the
  framework raises, otherwise the JSON value it sends. An exception that leaves the
  handler, or the rendering, is answered by the server's error middleware: status
  500, the plain text \<open>Internal Server Error\<close>. The repository registers no exception
  handler.
\<close>

definition internal_server_error :: reply where
  "internal_server_error = \<lparr>status = 500, payload = PlainText ''Internal Server Error''\<rparr>"

definition respond :: "(json \<Rightarrow> json option) \<Rightarrow> exn + json \<Rightarrow> reply" where
  "respond render out =
     (case out of
        Inl e \<Rightarrow> internal_server_error
      | Inr v \<Rightarrow> (case render v of
                  None \<Rightarrow> internal_server_error
                | Some sent \<Rightarrow> \<lparr>status = 200, payload = JSONContent sent\<rparr>))"

definition client_error :: "nat \<Rightarrow> bool" where
  "client_error s = (400 \<le> s \<and> s < 500)"

definition success_status :: "nat \<Rightarrow> bool" where
  "success_status s = (200 \<le> s \<and> s < 300)"

subsection \<open>Startup: the module's top level\<close>

text \<open>
  \<open>load_dotenv()\<close> adds the variables of the \<open>.env\<close> file (none when there is no
  file) to the process environment, keeping a variable that is already set. It
  requires no variable.
\<close>

definition load_dotenv :: "environ \<Rightarrow> environ \<Rightarrow> environ" where
  "load_dotenv dotenv env = dotenv ++ env"

record cors_middleware =
  allow_origins :: "string list"
  allow_credentials :: bool
  allow_methods :: "string list"
  allow_headers :: "string list"

record app =
  middleware :: "cors_middleware list"
  routes :: "(string \<times> string) list"

text \<open>
  Lines 159 to 169: load the \<open>.env\<close> file, create the application, add the CORS
  middleware, register the route. No line reads \<open>OPENAI_API_KEY\<close> or
  \<open>n8n_WEBHOOK_URL\<close>, and none raises.
\<close>

definition startup :: "environ \<Rightarrow> environ \<Rightarrow> exn + app \<times> environ" where
  "startup dotenv env =
     Inr (\<lparr>middleware = [\<lparr>allow_origins = [''*''], allow_credentials = True,
                           allow_methods = [''*''], allow_headers = [''*'']\<rparr>],
           routes = [(''POST'', ''/trigger-tool'')]\<rparr>,
          load_dotenv dotenv env)"

subsection \<open>Concurrent requests: the handler as a coroutine\<close>

text \<open>
  The handler is \<open>async\<close>: the event loop runs it up to a suspension and may run
  other handlers before it resumes it. Seen from the other handlers it suspends twice:
  at \<open>await request.json()\<close>, before anything is done, and at \<open>await client.post\<close>,
  once the call is issued. A task is a handler at one of these points, or finished.
\<close>

datatype task =
    Pending request
  | AwaitingPost outbound_call
  | Done "exn + json"

definition resume ::
  "(string \<Rightarrow> json option) \<Rightarrow> (outbound_call \<Rightarrow> exn + httpx_response) \<Rightarrow> environ \<Rightarrow> task
     \<Rightarrow> task \<times> outbound_call list \<times> environ" where
  "resume loads client_post env t =
     (case t of
        Pending req \<Rightarrow>
          (case before_post loads env req of
             Inl e \<Rightarrow> (Done (Inl e), [], env)
           | Inr call \<Rightarrow> (AwaitingPost call, [call], env))
      | AwaitingPost call \<Rightarrow> (Done (after_post loads (client_post call)), [], env)
      | Done out \<Rightarrow> (Done out, [], env))"

text \<open>
  The event loop's state: the tasks, one per inbound request, the outbound calls made
  so far, each with the number of the task that made it, and the process environment.
\<close>

record loop =
  tasks :: "task list"
  call_log :: "(nat \<times> outbound_call) list"
  os_environ :: environ

text \<open>
  One turn of the event loop: task \<open>i\<close> runs to its next suspension. Each handler
  opens a client of its own (\<open>async with httpx.AsyncClient()\<close>), and the downstream may
  answer each of them differently: \<open>client_post i\<close> is what the client of task \<open>i\<close>
  gets.
\<close>

definition turn ::
  "(string \<Rightarrow> json option) \<Rightarrow> (nat \<Rightarrow> outbound_call \<Rightarrow> exn + httpx_response) \<Rightarrow> loop \<Rightarrow> nat \<Rightarrow> loop" where
  "turn loads client_post s i =
     (if i < length (tasks s) then
        (case resume loads (client_post i) (os_environ s) (tasks s ! i) of
           (t, cs, env) \<Rightarrow>
             \<lparr>tasks = (tasks s)[i := t], call_log = call_log s @ map (Pair i) cs, os_environ = env\<rparr>)
      else s)"

text \<open>
  A schedule is the order in which the event loop gives the tasks their turns; every
  interleaving of the handlers is a schedule.
\<close>

definition serve ::
  "(string \<Rightarrow> json option) \<Rightarrow> (nat \<Rightarrow> outbound_call \<Rightarrow> exn + httpx_response) \<Rightarrow> environ
     \<Rightarrow> request list \<Rightarrow> nat list \<Rightarrow> loop" where
  "serve loads client_post env reqs schedule =
     foldl (turn loads client_post) \<lparr>tasks = map Pending reqs, call_log = [], os_environ = env\<rparr> schedule"

definition calls_of :: "nat \<Rightarrow> loop \<Rightarrow> outbound_call list" where
  "calls_of i s = map snd (filter (\<lambda>ic. fst ic = i) (call_log s))"

text \<open>
  A handler that is given \<open>n\<close> turns with no other task around: its task and the calls
  it has made.
\<close>

primrec alone ::
  "(string \<Rightarrow> json option) \<Rightarrow> (outbound_call \<Rightarrow> exn + httpx_response) \<Rightarrow> environ \<Rightarrow> request
     \<Rightarrow> nat \<Rightarrow> task \<times> outbound_call list" where
  "alone loads client_post env req 0 = (Pending req, [])"
| "alone loads client_post env req (Suc n) =
     (case alone loads client_post env req n of
        (t, done) \<Rightarrow> (case resume loads client_post env t of (t', cs, env') \<Rightarrow> (t', done @ cs)))"

subsection \<open>Sample inputs\<close>

text \<open>
  The concrete inputs of the examples below. \<open>sample_loads\<close> decodes the JSON texts
  that occur in them as \<open>json.loads\<close> does, and fails on everything else (none of
  the other texts used below is a JSON text).
\<close>

definition sample_loads :: "string \<Rightarrow> json option" where
  \<open>sample_loads s =
     (if s = ''{"user_id": "u1", "tool_id": "t1", "input": {"q": "hi"}}'' then
        Some (JObj [(''user_id'', JStr ''u1''), (''tool_id'', JStr ''t1''),
                    (''input'', JObj [(''q'', JStr ''hi'')])])
      else if s = ''{"user_id": "u2", "tool_id": "t2"}'' then
        Some (JObj [(''user_id'', JStr ''u2''), (''tool_id'', JStr ''t2'')])
      else if s = ''{"tool_id": "t1"}'' then
        Some (JObj [(''tool_id'', JStr ''t1'')])
      else if s = ''{"user_id": 7, "tool_id": {"a": null}}'' then
        Some (JObj [(''user_id'', JInt 7), (''tool_id'', JObj [(''a'', JNull)])])
      else if s = ''[]'' then Some (JArr [])
      else if s = ''{"result": "ok"}'' then Some (JObj [(''result'', JStr ''ok'')])
      else if s = ''{"error": "forbidden"}'' then Some (JObj [(''error'', JStr ''forbidden'')])
      else if s = ''{"score": NaN}'' then Some (JObj [(''score'', JFloat 0x7FF8000000000000)])
      else None)\<close>

definition sample_environ :: environ where
  "sample_environ =
     [''n8n_WEBHOOK_URL'' \<mapsto> ''https://n8n.example/webhook/tools'', ''OPENAI_API_KEY'' \<mapsto> ''sk-test'']"

definition sample_request :: request where
  \<open>sample_request = \<lparr>body = ''{"user_id": "u1", "tool_id": "t1", "input": {"q": "hi"}}''\<rparr>\<close>

definition sample_data :: "(string \<times> json) list" where
  "sample_data = [(''user_id'', JStr ''u1''), (''tool_id'', JStr ''t1''),
                  (''input'', JObj [(''q'', JStr ''hi'')])]"

text \<open>
  The framework's rendering of the values the handler returns in the examples: the two
  plain objects are sent as they are, and \<open>{"score": NaN}\<close> cannot be rendered. No
  other value is rendered below.
\<close>

definition sample_render :: "json \<Rightarrow> json option" where
  "sample_render v =
     (if v = JObj [(''result'', JStr ''ok'')] then Some v
      else if v = JObj [(''error'', JStr ''forbidden'')] then Some v
      else None)"

text \<open>A downstream that answers every call with the given status code and content.\<close>

definition answer :: "nat \<Rightarrow> string \<Rightarrow> outbound_call \<Rightarrow> exn + httpx_response" where
  "answer sc text call =
     Inr \<lparr>status_code = sc, resp_headers = [(''content-type'', ''application/json'')], content = text\<rparr>"

section \<open>Properties\<close>

subsection \<open>Auxiliary facts\<close>

lemmas handler_defs = trigger_tool_def before_post_def after_post_def build_call_def
  dict_get_def getenv_def format_field_def outcome_def calls_def environ_after_def

lemma sample_loads_request: "sample_loads (body sample_request) = Some (JObj sample_data)"
  by (simp add: sample_loads_def sample_request_def sample_data_def)

lemma sample_loads_simps:
  \<open>sample_loads ''{"result": "ok"}'' = Some (JObj [(''result'', JStr ''ok'')])\<close>
  \<open>sample_loads ''{"error": "forbidden"}'' = Some (JObj [(''error'', JStr ''forbidden'')])\<close>
  \<open>sample_loads ''Forbidden'' = None\<close>
  \<open>sample_loads ''<html>OK</html>'' = None\<close>
  \<open>sample_loads ''{"user_id": '' = None\<close>
  \<open>sample_loads ''[]'' = Some (JArr [])\<close>
  \<open>sample_loads ''{"score": NaN}'' = Some (JObj [(''score'', JFloat 0x7FF8000000000000)])\<close>
  \<open>sample_loads ''{"tool_id": "t1"}'' = Some (JObj [(''tool_id'', JStr ''t1'')])\<close>
  \<open>sample_loads ''{"user_id": "u2", "tool_id": "t2"}'' =
     Some (JObj [(''user_id'', JStr ''u2''), (''tool_id'', JStr ''t2'')])\<close>
  \<open>sample_loads ''{"user_id": 7, "tool_id": {"a": null}}'' =
     Some (JObj [(''user_id'', JInt 7), (''tool_id'', JObj [(''a'', JNull)])])\<close>
  by (simp_all add: sample_loads_def)

lemma respond_status: "status (respond render out) = 200 \<or> status (respond render out) = 500"
  by (simp add: respond_def internal_server_error_def split: sum.split option.split)

subsection \<open>The outbound body\<close>

text \<open>
  C1. When the inbound body is a JSON object holding \<open>user_id\<close> and \<open>tool_id\<close>, the
  handler makes a single outbound POST whose JSON body is exactly
  \<open>{"user": user_id, "tool": tool_id, "input": input}\<close>, where \<open>input\<close> is the value of
  the inbound \<open>input\<close> field and \<open>null\<close> when that field is absent.
\<close>

theorem outbound_body_renames_fields:
  assumes "loads (body req) = Some (JObj data)"
    and "map_of data ''user_id'' = Some user_id"
    and "map_of data ''tool_id'' = Some tool_id"
  shows "map post_json (calls (trigger_tool loads client_post env req)) =
           [JObj [(''user'', user_id), (''tool'', tool_id),
                  (''input'', case map_of data ''input'' of None \<Rightarrow> JNull | Some inp \<Rightarrow> inp)]]"
  using assms by (simp add: handler_defs)

text \<open>
  An inbound body with all three fields, and one without \<open>input\<close>, which goes out as
  \<open>null\<close>.
\<close>

theorem outbound_body_renames_fields_witness:
  \<open>map post_json (calls (trigger_tool sample_loads (answer 200 ''{"result": "ok"}'') sample_environ
       \<lparr>body = ''{"user_id": "u1", "tool_id": "t1", "input": {"q": "hi"}}''\<rparr>)) =
     [JObj [(''user'', JStr ''u1''), (''tool'', JStr ''t1''), (''input'', JObj [(''q'', JStr ''hi'')])]]
   \<and> map post_json (calls (trigger_tool sample_loads (answer 200 ''{"result": "ok"}'') sample_environ
       \<lparr>body = ''{"user_id": "u2", "tool_id": "t2"}''\<rparr>)) =
     [JObj [(''user'', JStr ''u2''), (''tool'', JStr ''t2''), (''input'', JNull)]]\<close>
  using outbound_body_renames_fields [of sample_loads
      \<open>\<lparr>body = ''{"user_id": "u1", "tool_id": "t1", "input": {"q": "hi"}}''\<rparr>\<close>
      \<open>[(''user_id'', JStr ''u1''), (''tool_id'', JStr ''t1''), (''input'', JObj [(''q'', JStr ''hi'')])]\<close>
      \<open>JStr ''u1''\<close> \<open>JStr ''t1''\<close> \<open>answer 200 ''{"result": "ok"}''\<close> sample_environ]
    outbound_body_renames_fields [of sample_loads
      \<open>\<lparr>body = ''{"user_id": "u2", "tool_id": "t2"}''\<rparr>\<close>
      \<open>[(''user_id'', JStr ''u2''), (''tool_id'', JStr ''t2'')]\<close>
      \<open>JStr ''u2''\<close> \<open>JStr ''t2''\<close> \<open>answer 200 ''{"result": "ok"}''\<close> sample_environ]
  by (simp add: sample_loads_def)

subsection \<open>Missing identifiers\<close>

text \<open>
  The claim that a body without \<open>user_id\<close> is refused with a 400-class status and no
  outbound call fails: the body \<open>{"tool_id": "t1"}\<close> is forwarded with \<open>user\<close> set to
  \<open>null\<close>, and the caller gets the downstream's body with status 200.
\<close>

theorem missing_user_id_counterexample:
  \<open>map post_json (calls (trigger_tool sample_loads (answer 200 ''{"result": "ok"}'') sample_environ
       \<lparr>body = ''{"tool_id": "t1"}''\<rparr>)) =
     [JObj [(''user'', JNull), (''tool'', JStr ''t1''), (''input'', JNull)]]
   \<and> respond sample_render (outcome (trigger_tool sample_loads (answer 200 ''{"result": "ok"}'') sample_environ
       \<lparr>body = ''{"tool_id": "t1"}''\<rparr>)) =
     \<lparr>status = 200, payload = JSONContent (JObj [(''result'', JStr ''ok'')])\<rparr>
   \<and> \<not> client_error (status (respond sample_render (outcome (trigger_tool sample_loads
         (answer 200 ''{"result": "ok"}'') sample_environ \<lparr>body = ''{"tool_id": "t1"}''\<rparr>))))\<close>
  by (simp add: handler_defs sample_loads_simps answer_def respond_def sample_render_def
      client_error_def)

text \<open>
  C2, as the code has it. When the inbound body is a JSON object in which \<open>user_id\<close> or
  \<open>tool_id\<close> is missing or the empty string, the handler does not refuse it: it makes
  one outbound POST, in which a missing identifier is \<open>null\<close> and a present one (the
  empty string too) is itself, and the caller's status is not a 400-class one.
\<close>

theorem missing_identifier_forwarded_as_null:
  assumes "loads (body req) = Some (JObj data)"
    and "map_of data ''user_id'' = None \<or> map_of data ''user_id'' = Some (JStr [])
       \<or> map_of data ''tool_id'' = None \<or> map_of data ''tool_id'' = Some (JStr [])"
  shows "map post_json (calls (trigger_tool loads client_post env req)) =
           [JObj [(''user'', case map_of data ''user_id'' of None \<Rightarrow> JNull | Some u \<Rightarrow> u),
                  (''tool'', case map_of data ''tool_id'' of None \<Rightarrow> JNull | Some t \<Rightarrow> t),
                  (''input'', dict_get data ''input'')]]
       \<and> \<not> client_error (status (respond render (outcome (trigger_tool loads client_post env req))))"
proof -
  have "\<not> client_error (status (respond render out))" for out
    using respond_status [of render out] by (auto simp: client_error_def)
  with assms(1) show ?thesis by (simp add: handler_defs)
qed

theorem missing_identifier_forwarded_as_null_witness:
  \<open>map_of [(''tool_id'', JStr ''t1'')] ''user_id'' = None
   \<and> map post_json (calls (trigger_tool sample_loads (answer 200 ''{"result": "ok"}'') sample_environ
       \<lparr>body = ''{"tool_id": "t1"}''\<rparr>)) =
     [JObj [(''user'', JNull), (''tool'', JStr ''t1''), (''input'', JNull)]]
   \<and> \<not> client_error (status (respond sample_render (outcome (trigger_tool sample_loads
         (answer 200 ''{"result": "ok"}'') sample_environ \<lparr>body = ''{"tool_id": "t1"}''\<rparr>))))\<close>
  using missing_identifier_forwarded_as_null [of sample_loads
      \<open>\<lparr>body = ''{"tool_id": "t1"}''\<rparr>\<close> \<open>[(''tool_id'', JStr ''t1'')]\<close>
      \<open>answer 200 ''{"result": "ok"}''\<close> sample_environ sample_render]
  by (simp add: sample_loads_simps dict_get_def)

subsection \<open>Malformed bodies\<close>

text \<open>
  The claim that a body that is not JSON gets a 400-class status fails: the decoder's
  exception leaves the handler, and the caller gets status 500.
\<close>

theorem malformed_body_counterexample:
  \<open>sample_loads ''{"user_id": '' = None
   \<and> respond sample_render (outcome (trigger_tool sample_loads (answer 200 ''{"result": "ok"}'') sample_environ
       \<lparr>body = ''{"user_id": ''\<rparr>)) = \<lparr>status = 500, payload = PlainText ''Internal Server Error''\<rparr>
   \<and> \<not> client_error (status (respond sample_render (outcome (trigger_tool sample_loads
         (answer 200 ''{"result": "ok"}'') sample_environ \<lparr>body = ''{"user_id": ''\<rparr>))))\<close>
  by (simp add: handler_defs sample_loads_simps respond_def internal_server_error_def client_error_def)

text \<open>
  C3, as the code has it. When the inbound body is not valid JSON, the handler raises
  the decoder's exception before it builds any call: it makes no outbound call, and
  the caller gets the framework's answer to an unhandled exception, status 500.
\<close>

theorem malformed_body_raises_before_post:
  assumes "loads (body req) = None"
  shows "outcome (trigger_tool loads client_post env req) = Inl JSONDecodeError
       \<and> calls (trigger_tool loads client_post env req) = []
       \<and> respond render (outcome (trigger_tool loads client_post env req)) = internal_server_error
       \<and> status internal_server_error = 500"
  using assms by (simp add: handler_defs respond_def internal_server_error_def)

theorem malformed_body_raises_before_post_witness:
  \<open>sample_loads ''{"user_id": '' = None
   \<and> outcome (trigger_tool sample_loads (answer 200 ''{"result": "ok"}'') sample_environ
       \<lparr>body = ''{"user_id": ''\<rparr>) = Inl JSONDecodeError
   \<and> calls (trigger_tool sample_loads (answer 200 ''{"result": "ok"}'') sample_environ
       \<lparr>body = ''{"user_id": ''\<rparr>) = []\<close>
  using malformed_body_raises_before_post [of sample_loads \<open>\<lparr>body = ''{"user_id": ''\<rparr>\<close>
      \<open>answer 200 ''{"result": "ok"}''\<close> sample_environ sample_render]
  by (simp add: sample_loads_simps)

subsection \<open>The downstream's answer\<close>

text \<open>
  The claim that the downstream's status code reaches the caller unchanged fails: a
  downstream 201 with body \<open>{"result": "ok"}\<close> reaches the caller as 200.
\<close>

theorem downstream_status_counterexample:
  \<open>status (respond sample_render (outcome (trigger_tool sample_loads (answer 201 ''{"result": "ok"}'')
       sample_environ sample_request))) = 200
   \<and> status (respond sample_render (outcome (trigger_tool sample_loads (answer 201 ''{"result": "ok"}'')
       sample_environ sample_request))) \<noteq> 201\<close>
  by (simp add: trigger_tool_def before_post_def after_post_def outcome_def sample_loads_request
      sample_loads_simps answer_def respond_def sample_render_def)

text \<open>
  C4, as the code has it. When the downstream answers with a body that is valid JSON,
  whatever the status code of the answer, the handler returns the decoded body
  unchanged as its result. The downstream's status code is not forwarded: the
  framework answers the caller with status 200 and its rendering of the returned
  value, or with the generic 500 when it cannot render the value. In particular a
  downstream 200 with body \<open>{"result": "ok"}\<close>, which the framework renders as it is,
  reaches the caller as 200 with that body.
\<close>

theorem downstream_body_passed_through:
  assumes "loads (body req) = Some (JObj data)"
    and "client_post (build_call env data) = Inr res"
    and "loads (content res) = Some v"
  shows "outcome (trigger_tool loads client_post env req) = Inr v
       \<and> respond render (outcome (trigger_tool loads client_post env req)) =
           (case render v of
              None \<Rightarrow> internal_server_error
            | Some sent \<Rightarrow> \<lparr>status = 200, payload = JSONContent sent\<rparr>)"
  using assms by (simp add: trigger_tool_def before_post_def after_post_def outcome_def respond_def)

text \<open>
  A downstream 200 with body \<open>{"result": "ok"}\<close>, and one whose body holds a NaN
  (\<open>json.loads\<close> accepts the literal \<open>NaN\<close>; the framework does not render it).
\<close>

theorem downstream_body_passed_through_witness:
  \<open>outcome (trigger_tool sample_loads (answer 200 ''{"result": "ok"}'') sample_environ sample_request) =
     Inr (JObj [(''result'', JStr ''ok'')])
   \<and> respond sample_render (outcome (trigger_tool sample_loads (answer 200 ''{"result": "ok"}'')
       sample_environ sample_request)) =
     \<lparr>status = 200, payload = JSONContent (JObj [(''result'', JStr ''ok'')])\<rparr>
   \<and> outcome (trigger_tool sample_loads (answer 200 ''{"score": NaN}'') sample_environ sample_request) =
     Inr (JObj [(''score'', JFloat 0x7FF8000000000000)])
   \<and> respond sample_render (outcome (trigger_tool sample_loads (answer 200 ''{"score": NaN}'')
       sample_environ sample_request)) =
     \<lparr>status = 500, payload = PlainText ''Internal Server Error''\<rparr>\<close>
  using downstream_body_passed_through [of sample_loads sample_request sample_data
      \<open>answer 200 ''{"result": "ok"}''\<close> sample_environ
      \<open>\<lparr>status_code = 200, resp_headers = [(''content-type'', ''application/json'')],
          content = ''{"result": "ok"}''\<rparr>\<close>
      \<open>JObj [(''result'', JStr ''ok'')]\<close> sample_render]
    downstream_body_passed_through [of sample_loads sample_request sample_data
      \<open>answer 200 ''{"score": NaN}''\<close> sample_environ
      \<open>\<lparr>status_code = 200, resp_headers = [(''content-type'', ''application/json'')],
          content = ''{"score": NaN}''\<rparr>\<close>
      \<open>JObj [(''score'', JFloat 0x7FF8000000000000)]\<close> sample_render]
  by (auto simp: sample_loads_request sample_loads_simps answer_def sample_render_def
      internal_server_error_def)

subsection \<open>Downstream failures\<close>

text \<open>
  The claim that the caller can tell a rejecting downstream from an unreachable one,
  and that a downstream 403 is reflected in the answer, fails. A 403 whose body is
  not JSON and a timeout give the caller the same generic 500; a 403 whose body is
  JSON gives the caller that body with status 200.
\<close>

theorem downstream_rejection_counterexample:
  \<open>respond sample_render (outcome (trigger_tool sample_loads (answer 403 ''Forbidden'') sample_environ sample_request))
     = \<lparr>status = 500, payload = PlainText ''Internal Server Error''\<rparr>
   \<and> respond sample_render (outcome (trigger_tool sample_loads (\<lambda>call. Inl TimeoutException) sample_environ sample_request))
     = \<lparr>status = 500, payload = PlainText ''Internal Server Error''\<rparr>
   \<and> respond sample_render (outcome (trigger_tool sample_loads (answer 403 ''{"error": "forbidden"}'') sample_environ
        sample_request))
     = \<lparr>status = 200, payload = JSONContent (JObj [(''error'', JStr ''forbidden'')])\<rparr>\<close>
  by (simp add: trigger_tool_def before_post_def after_post_def outcome_def sample_loads_request
      sample_loads_simps answer_def respond_def sample_render_def internal_server_error_def)

text \<open>
  C5, as the code has it. The handler does not look at the downstream's status code
  and catches nothing. When \<open>client.post\<close> raises (a timeout, a connection failure),
  the exception leaves the handler and the caller gets the generic 500. A response
  with a status code outside 2xx is handled as any other response: the handler's
  result is the same whatever the status code. If the body is not valid JSON, the
  caller gets the same generic 500 as for an unreachable downstream. If the body is
  valid JSON, the handler returns the decoded body as its ordinary result, which the
  framework answers with status 200 and its rendering of the value (with the generic
  500 when it cannot render it).
\<close>

theorem downstream_status_never_inspected:
  assumes "loads (body req) = Some (JObj data)"
  shows "(\<forall>e. client_post (build_call env data) = Inl e \<longrightarrow>
            outcome (trigger_tool loads client_post env req) = Inl e
          \<and> respond render (outcome (trigger_tool loads client_post env req)) = internal_server_error)
       \<and> (\<forall>res. client_post (build_call env data) = Inr res \<and> \<not> success_status (status_code res) \<longrightarrow>
            (\<forall>sc. outcome (trigger_tool loads
                      (client_post (build_call env data := Inr (res\<lparr>status_code := sc\<rparr>))) env req)
                   = outcome (trigger_tool loads client_post env req))
          \<and> (loads (content res) = None \<longrightarrow>
                respond render (outcome (trigger_tool loads client_post env req)) = internal_server_error)
          \<and> (\<forall>v. loads (content res) = Some v \<longrightarrow>
                outcome (trigger_tool loads client_post env req) = Inr v
              \<and> respond render (outcome (trigger_tool loads client_post env req)) =
                  (case render v of
                     None \<Rightarrow> internal_server_error
                   | Some sent \<Rightarrow> \<lparr>status = 200, payload = JSONContent sent\<rparr>)))"
  using assms
  by (auto simp: trigger_tool_def before_post_def after_post_def outcome_def respond_def)

text \<open>
  A downstream that cannot be reached, a 403 whose body is not JSON, and a 403 whose
  body is JSON.
\<close>

theorem downstream_status_never_inspected_witness:
  \<open>\<not> success_status 403
   \<and> respond sample_render (outcome (trigger_tool sample_loads (\<lambda>call. Inl ConnectError) sample_environ
        sample_request))
     = internal_server_error
   \<and> respond sample_render (outcome (trigger_tool sample_loads (answer 403 ''Forbidden'') sample_environ
        sample_request))
     = internal_server_error
   \<and> outcome (trigger_tool sample_loads (answer 403 ''{"error": "forbidden"}'') sample_environ
        sample_request)
     = Inr (JObj [(''error'', JStr ''forbidden'')])
   \<and> respond sample_render (outcome (trigger_tool sample_loads (answer 403 ''{"error": "forbidden"}'')
        sample_environ sample_request))
     = \<lparr>status = 200, payload = JSONContent (JObj [(''error'', JStr ''forbidden'')])\<rparr>\<close>
  using downstream_status_never_inspected [of sample_loads sample_request sample_data
      \<open>\<lambda>call. Inl ConnectError\<close> sample_environ sample_render]
    downstream_status_never_inspected [of sample_loads sample_request sample_data
      \<open>answer 403 ''Forbidden''\<close> sample_environ sample_render]
    downstream_status_never_inspected [of sample_loads sample_request sample_data
      \<open>answer 403 ''{"error": "forbidden"}''\<close> sample_environ sample_render]
  by (auto simp: sample_loads_request sample_loads_simps answer_def success_status_def
      sample_render_def)

subsection \<open>Configuration\<close>

text \<open>
  The claim that a missing endpoint or credential is an error at startup and is never
  met while a request is handled fails: with no \<open>.env\<close> file and an empty
  environment startup succeeds, and the handler then calls \<open>client.post\<close> with the URL
  \<open>None\<close> and the header \<open>Authorization: Bearer None\<close>.
\<close>

theorem lazy_configuration_counterexample:
  \<open>(case startup Map.empty Map.empty of
      Inl e \<Rightarrow> False
    | Inr (a, env) \<Rightarrow>
        calls (trigger_tool sample_loads (answer 200 ''{"result": "ok"}'') env sample_request) =
          [\<lparr>post_url = None,
            post_json = JObj [(''user'', JStr ''u1''), (''tool'', JStr ''t1''),
                              (''input'', JObj [(''q'', JStr ''hi'')])],
            post_headers = [(''Authorization'', ''Bearer None'')]\<rparr>])\<close>
  by (simp add: startup_def load_dotenv_def handler_defs sample_loads_request sample_data_def)

text \<open>
  C6, as the code has it. Startup loads the \<open>.env\<close> file into the process environment
  and never fails, whichever variables are set. The handler reads the endpoint URL and
  the credential from the process environment on every request: the URL of its call
  is the value of \<open>n8n_WEBHOOK_URL\<close> at that moment (\<open>None\<close> when it is not set), and
  the authorization header is \<open>Bearer\<close> followed by the value of \<open>OPENAI_API_KEY\<close>
  (by \<open>None\<close> when it is not set).
\<close>

theorem configuration_read_on_every_request:
  assumes "loads (body req) = Some (JObj data)"
  shows "(\<exists>a. startup dotenv env0 = Inr (a, load_dotenv dotenv env0))
       \<and> map post_url (calls (trigger_tool loads client_post env req)) = [env ''n8n_WEBHOOK_URL'']
       \<and> map post_headers (calls (trigger_tool loads client_post env req)) =
           [[(''Authorization'',
              ''Bearer '' @ (case env ''OPENAI_API_KEY'' of None \<Rightarrow> ''None'' | Some k \<Rightarrow> k))]]"
  using assms by (simp add: startup_def handler_defs)

theorem configuration_read_on_every_request_witness:
  \<open>map post_url (calls (trigger_tool sample_loads (answer 200 ''{"result": "ok"}'') sample_environ
       sample_request)) = [Some ''https://n8n.example/webhook/tools'']
   \<and> map post_headers (calls (trigger_tool sample_loads (answer 200 ''{"result": "ok"}'') sample_environ
       sample_request)) = [[(''Authorization'', ''Bearer sk-test'')]]
   \<and> map post_url (calls (trigger_tool sample_loads (answer 200 ''{"result": "ok"}'') Map.empty
       sample_request)) = [None]\<close>
  using configuration_read_on_every_request [of sample_loads sample_request sample_data
      Map.empty Map.empty \<open>answer 200 ''{"result": "ok"}''\<close> sample_environ]
    configuration_read_on_every_request [of sample_loads sample_request sample_data
      Map.empty Map.empty \<open>answer 200 ''{"result": "ok"}''\<close> Map.empty]
  by (auto simp: sample_loads_request sample_environ_def)

subsection \<open>One attempt, nothing stored\<close>

text \<open>
  The claim that every body that is valid JSON leads to exactly one outbound POST
  fails: the body \<open>[]\<close> is valid JSON, \<open>data.get\<close> raises on the list, and no call is
  made.
\<close>

theorem non_object_body_counterexample:
  \<open>sample_loads ''[]'' = Some (JArr [])
   \<and> calls (trigger_tool sample_loads (answer 200 ''{"result": "ok"}'') sample_environ \<lparr>body = ''[]''\<rparr>) = []
   \<and> outcome (trigger_tool sample_loads (answer 200 ''{"result": "ok"}'') sample_environ \<lparr>body = ''[]''\<rparr>)
       = Inl AttributeError\<close>
  by (simp add: handler_defs sample_loads_simps)

text \<open>
  C7, as the code has it. When the inbound body decodes to a JSON object, the handler
  calls \<open>client.post\<close> exactly once, whatever the downstream does (a single attempt,
  never retried); when it decodes to any other JSON value, the handler makes no call.
  In both cases it stores nothing: the process environment is as it was.
\<close>

theorem one_post_per_object_body:
  assumes "loads (body req) = Some v"
  shows "length (calls (trigger_tool loads client_post env req)) = (case v of JObj data \<Rightarrow> 1 | _ \<Rightarrow> 0)
       \<and> environ_after (trigger_tool loads client_post env req) = env"
  using assms
  by (simp add: trigger_tool_def before_post_def calls_def environ_after_def split: json.split)

theorem one_post_per_object_body_witness:
  \<open>length (calls (trigger_tool sample_loads (\<lambda>call. Inl TimeoutException) sample_environ sample_request)) = 1
   \<and> environ_after (trigger_tool sample_loads (\<lambda>call. Inl TimeoutException) sample_environ sample_request)
       = sample_environ\<close>
  using one_post_per_object_body [of sample_loads sample_request \<open>JObj sample_data\<close>
      \<open>\<lambda>call. Inl TimeoutException\<close> sample_environ]
  by (auto simp: sample_loads_request)

subsection \<open>Requests do not interfere\<close>

text \<open>A turn leaves the process environment as it was.\<close>

lemma resume_environ: "snd (snd (resume loads client_post env t)) = env"
  by (simp add: resume_def split: task.split sum.split)

text \<open>
  Two turns finish a handler that runs alone, with the result and the calls of
  \<open>trigger_tool\<close>; further turns change nothing.
\<close>

lemma alone_two:
  "alone loads client_post env req (Suc (Suc n)) =
     (Done (outcome (trigger_tool loads client_post env req)),
      calls (trigger_tool loads client_post env req))"
proof (induction n)
  case 0
  show ?case
    by (simp add: resume_def trigger_tool_def outcome_def calls_def split: sum.split)
next
  case (Suc n)
  show ?case
    unfolding alone.simps(2) [of loads client_post env req "Suc (Suc n)"] Suc
    by (simp add: resume_def)
qed

lemma turn_preserves:
  assumes "length (tasks s) = n" and "os_environ s = env"
  shows "length (tasks (turn loads client_post s j)) = n \<and> os_environ (turn loads client_post s j) = env"
  using assms resume_environ [of loads "client_post j" env "tasks s ! j"]
  by (auto simp: turn_def split: prod.split)

text \<open>The turn of task \<open>j\<close> touches neither the task nor the calls of another task.\<close>

lemma turn_other:
  assumes "i \<noteq> j"
  shows "tasks (turn loads client_post s j) ! i = tasks s ! i"
    and "calls_of i (turn loads client_post s j) = calls_of i s"
  using assms by (auto simp: turn_def calls_of_def split: prod.split)

lemma turn_self:
  assumes "j < length (tasks s)" and "os_environ s = env"
    and "(tasks s ! j, calls_of j s) = alone loads (client_post j) env req n"
  shows "(tasks (turn loads client_post s j) ! j, calls_of j (turn loads client_post s j)) =
           alone loads (client_post j) env req (Suc n)"
  using assms
  by (auto simp: turn_def calls_of_def comp_def split: prod.split dest: sym)

text \<open>
  Whatever the schedule, every task is where it would be had it been given the same
  number of turns alone.
\<close>

lemma serve_invariant:
  "length (tasks (serve loads client_post env reqs schedule)) = length reqs
   \<and> os_environ (serve loads client_post env reqs schedule) = env
   \<and> (\<forall>i < length reqs.
        (tasks (serve loads client_post env reqs schedule) ! i,
         calls_of i (serve loads client_post env reqs schedule)) =
          alone loads (client_post i) env (reqs ! i) (count_list schedule i))"
proof (induction schedule rule: rev_induct)
  case Nil
  show ?case by (simp add: serve_def calls_of_def)
next
  case (snoc j schedule)
  let ?s = "serve loads client_post env reqs schedule"
  have step: "serve loads client_post env reqs (schedule @ [j]) = turn loads client_post ?s j"
    by (simp add: serve_def)
  from snoc have len: "length (tasks ?s) = length reqs" and env: "os_environ ?s = env"
    and inv: "\<And>i. i < length reqs \<Longrightarrow>
        (tasks ?s ! i, calls_of i ?s) = alone loads (client_post i) env (reqs ! i) (count_list schedule i)"
    by auto
  have "(tasks (turn loads client_post ?s j) ! i, calls_of i (turn loads client_post ?s j)) =
          alone loads (client_post i) env (reqs ! i) (count_list (schedule @ [j]) i)"
    if "i < length reqs" for i
  proof (cases "i = j")
    case True
    with that len env inv [of j]
      turn_self [of j ?s env loads client_post "reqs ! j" "count_list schedule j"]
    show ?thesis by simp
  next
    case False
    with inv [OF that] turn_other [of i j loads client_post ?s] show ?thesis by simp
  qed
  with turn_preserves [OF len env, of loads client_post j] step show ?case by simp
qed

text \<open>
  C8. The handler holds no mutable state across requests. Let any number of requests
  be handled concurrently, their handlers interleaved at their suspension points in
  any order. Once the handler of request \<open>i\<close> has finished (it has had its two
  turns), its result and its outbound calls are those of \<open>trigger_tool\<close> run on that
  request alone: they depend on the request's body, the configuration and the
  downstream's answer to its own call, and on no other request. The process
  environment is left as it was.
\<close>

theorem concurrent_requests_do_not_interfere:
  assumes "i < length reqs" and "2 \<le> count_list schedule i"
  shows "tasks (serve loads client_post env reqs schedule) ! i =
           Done (outcome (trigger_tool loads (client_post i) env (reqs ! i)))
       \<and> calls_of i (serve loads client_post env reqs schedule) =
           calls (trigger_tool loads (client_post i) env (reqs ! i))
       \<and> os_environ (serve loads client_post env reqs schedule) = env"
proof -
  from assms(2) obtain n where n: "count_list schedule i = Suc (Suc n)"
    by (auto simp: le_iff_add numeral_2_eq_2)
  from serve_invariant [of loads client_post env reqs schedule] assms(1)
  have "(tasks (serve loads client_post env reqs schedule) ! i,
         calls_of i (serve loads client_post env reqs schedule)) =
          alone loads (client_post i) env (reqs ! i) (count_list schedule i)"
    and "os_environ (serve loads client_post env reqs schedule) = env"
    by auto
  then show ?thesis
    unfolding n alone_two by simp
qed

text \<open>
  Two requests with different \<open>tool_id\<close>s, interleaved (first, second, second, first);
  the downstream answers the first and times out on the second. Each outbound call
  carries its own request's fields, and the first request's result is not affected by
  the second one's failure.
\<close>

theorem concurrent_requests_do_not_interfere_witness:
  \<open>map post_json (calls_of 0 (serve sample_loads
      (\<lambda>i. if i = 0 then answer 200 ''{"result": "ok"}'' else (\<lambda>call. Inl TimeoutException))
      sample_environ [sample_request, \<lparr>body = ''{"user_id": "u2", "tool_id": "t2"}''\<rparr>] [0, 1, 1, 0])) =
     [JObj [(''user'', JStr ''u1''), (''tool'', JStr ''t1''), (''input'', JObj [(''q'', JStr ''hi'')])]]
   \<and> map post_json (calls_of 1 (serve sample_loads
      (\<lambda>i. if i = 0 then answer 200 ''{"result": "ok"}'' else (\<lambda>call. Inl TimeoutException))
      sample_environ [sample_request, \<lparr>body = ''{"user_id": "u2", "tool_id": "t2"}''\<rparr>] [0, 1, 1, 0])) =
     [JObj [(''user'', JStr ''u2''), (''tool'', JStr ''t2''), (''input'', JNull)]]
   \<and> tasks (serve sample_loads
      (\<lambda>i. if i = 0 then answer 200 ''{"result": "ok"}'' else (\<lambda>call. Inl TimeoutException))
      sample_environ [sample_request, \<lparr>body = ''{"user_id": "u2", "tool_id": "t2"}''\<rparr>] [0, 1, 1, 0]) ! 0 =
     Done (Inr (JObj [(''result'', JStr ''ok'')]))
   \<and> tasks (serve sample_loads
      (\<lambda>i. if i = 0 then answer 200 ''{"result": "ok"}'' else (\<lambda>call. Inl TimeoutException))
      sample_environ [sample_request, \<lparr>body = ''{"user_id": "u2", "tool_id": "t2"}''\<rparr>] [0, 1, 1, 0]) ! 1 =
     Done (Inl TimeoutException)\<close>
  using concurrent_requests_do_not_interfere [of 0
      \<open>[sample_request, \<lparr>body = ''{"user_id": "u2", "tool_id": "t2"}''\<rparr>]\<close> \<open>[0, 1, 1, 0]\<close> sample_loads
      \<open>\<lambda>i. if i = 0 then answer 200 ''{"result": "ok"}'' else (\<lambda>call. Inl TimeoutException)\<close>
      sample_environ]
    concurrent_requests_do_not_interfere [of 1
      \<open>[sample_request, \<lparr>body = ''{"user_id": "u2", "tool_id": "t2"}''\<rparr>]\<close> \<open>[0, 1, 1, 0]\<close> sample_loads
      \<open>\<lambda>i. if i = 0 then answer 200 ''{"result": "ok"}'' else (\<lambda>call. Inl TimeoutException)\<close>
      sample_environ]
  by (simp add: handler_defs sample_loads_request sample_loads_simps sample_data_def answer_def)

subsection \<open>The response body is decoded, the rest of the response is dropped\<close>

text \<open>
  C9. The handler always decodes the downstream response's body as JSON before it
  returns: what it returns is the decoded value, and when the body is not valid JSON
  (also in a 2xx response) it raises, so that the caller gets the internal server
  error and not the raw body. The downstream's headers (and status code) are never
  forwarded: the caller's answer is the same whatever they are.
\<close>

theorem response_decoded_headers_dropped:
  assumes "loads (body req) = Some (JObj data)"
    and "client_post (build_call env data) = Inr res"
  shows "outcome (trigger_tool loads client_post env req) =
           (case loads (content res) of None \<Rightarrow> Inl JSONDecodeError | Some v \<Rightarrow> Inr v)
       \<and> (loads (content res) = None \<longrightarrow>
            respond render (outcome (trigger_tool loads client_post env req)) = internal_server_error)
       \<and> (\<forall>hs sc. respond render (outcome (trigger_tool loads
              (client_post (build_call env data := Inr (res\<lparr>resp_headers := hs, status_code := sc\<rparr>)))
              env req))
            = respond render (outcome (trigger_tool loads client_post env req)))"
  using assms
  by (simp add: trigger_tool_def before_post_def after_post_def outcome_def respond_def)

text \<open>A downstream 200 whose body is an HTML page.\<close>

theorem response_decoded_headers_dropped_witness:
  \<open>success_status 200
   \<and> outcome (trigger_tool sample_loads (answer 200 ''<html>OK</html>'') sample_environ sample_request)
     = Inl JSONDecodeError
   \<and> respond sample_render (outcome (trigger_tool sample_loads (answer 200 ''<html>OK</html>'') sample_environ
       sample_request))
     = \<lparr>status = 500, payload = PlainText ''Internal Server Error''\<rparr>\<close>
  using response_decoded_headers_dropped [of sample_loads sample_request sample_data
      \<open>answer 200 ''<html>OK</html>''\<close> sample_environ
      \<open>\<lparr>status_code = 200, resp_headers = [(''content-type'', ''application/json'')],
          content = ''<html>OK</html>''\<rparr>\<close> sample_render]
  by (auto simp: sample_loads_request sample_loads_simps answer_def success_status_def
      internal_server_error_def)

subsection \<open>No validation of the identifiers\<close>



end
